theory Spec2Isabelle
  imports Complex_Main "HOL-Library.Word"
begin

section \<open>Data model of pkg/synchronizer/track.go\<close>

text \<open>
  The per-track synchronizer of \<^verbatim>\<open>pkg/synchronizer/track.go\<close>, as a shallow embedding.

  \<^item> \<^verbatim>\<open>uint16\<close> sequence numbers are \<open>16 word\<close> and \<^verbatim>\<open>uint32\<close> transport timestamps are
    \<open>32 word\<close>: \<open>+\<close> and \<open>-\<close> wrap, \<open><\<close> is the unsigned order, as in Go.
  \<^item> \<^verbatim>\<open>int64\<close> fields and \<^verbatim>\<open>time.Duration\<close> (nanoseconds) are \<open>int\<close>. The model
    therefore describes runs in which no \<^verbatim>\<open>int64\<close> computation overflows; the conversions
    \<^verbatim>\<open>int64(pkt.Timestamp)\<close>, \<^verbatim>\<open>uint32(ts)\<close> and \<^verbatim>\<open>uint16(t.inserted)\<close> are written out
    (\<open>uint\<close>, \<open>word_of_int\<close>).
  \<^item> \<^verbatim>\<open>rtpDuration\<close> is a \<^verbatim>\<open>float64\<close>; the model computes with the exact real number it
    approximates, and \<^verbatim>\<open>math.Round\<close> rounds half away from zero.
  \<^item> A \<^verbatim>\<open>*rtp.Packet\<close> is passed by pointer and mutated in place; here every operation
    returns the packet as it leaves it. The two packets of \<^verbatim>\<open>InsertFrameBefore\<close> are
    distinct objects.
  \<^item> The mutex is not modelled: every operation holds it from entry to exit, so the
    operations of one track are the atomic steps below.
\<close>

type_synonym Duration = int

record Packet =
  SequenceNumber :: "16 word"
  Timestamp :: "32 word"

datatype RTPCodecType = RTPCodecTypeAudio | RTPCodecTypeVideo

datatype error = EOF

record TrackSynchronizer =
  trackID :: string
  rtpDuration :: real
  frameDuration :: int
  defaultFrameDuration :: int
  startedAt :: int
  firstTS :: int
  maxPTS :: Duration
  lastSN :: "16 word"
  lastTS :: int
  lastPTS :: Duration
  lastValid :: bool
  inserted :: int
  snOffset :: "16 word"
  ptsOffset :: int
  lastPTSDrift :: Duration

definition maxSNDropout :: "16 word" where
  "maxSNDropout = 3000"

definition uint32Overflow :: int where
  "uint32Overflow = 4294967296"

text \<open>\<^verbatim>\<open>math.Round\<close>: the nearest integer, halfway cases away from zero.\<close>

definition math_Round :: "real \<Rightarrow> int" where
  "math_Round x = (if 0 \<le> x then \<lfloor>x + 1 / 2\<rfloor> else \<lceil>x - 1 / 2\<rceil>)"

section \<open>Operations\<close>

text \<open>
  \<^verbatim>\<open>newTrackSynchronizer\<close>: the track hands over its id, clock rate (a \<^verbatim>\<open>uint32\<close>) and kind.
  \<^verbatim>\<open>int64(clockRate / 50)\<close> truncates a non-negative quotient, which is \<open>div\<close>. All other
  fields are Go zero values; every kind other than audio takes the \<^verbatim>\<open>default\<close> branch.
  For clock rate 0 Go's \<^verbatim>\<open>rtpDuration\<close> is \<^verbatim>\<open>+Inf\<close>, which no
  real number represents: the results below that involve \<open>rtpDuration\<close> are about tracks with
  a positive clock rate.
\<close>

definition newTrackSynchronizer :: "string \<Rightarrow> 32 word \<Rightarrow> RTPCodecType \<Rightarrow> TrackSynchronizer" where
  "newTrackSynchronizer tid clockRate kind =
     \<lparr> trackID = tid,
       rtpDuration = 1000000000 / of_nat (unat clockRate),
       frameDuration = 0,
       defaultFrameDuration =
         (case kind of
            RTPCodecTypeAudio \<Rightarrow> int (unat clockRate) div 50
          | _ \<Rightarrow> int (unat clockRate) div 24),
       startedAt = 0,
       firstTS = 0,
       maxPTS = 0,
       lastSN = 0,
       lastTS = 0,
       lastPTS = 0,
       lastValid = False,
       inserted = 0,
       snOffset = 0,
       ptsOffset = 0,
       lastPTSDrift = 0 \<rparr>"

text \<open>
  \<^verbatim>\<open>Initialize\<close>: \<open>now\<close> is \<^verbatim>\<open>time.Now().UnixNano()\<close> and \<open>sessionStart\<close> is what the session's
  \<^verbatim>\<open>getOrSetStartedAt(now)\<close> answers; both come from outside this file.
\<close>

definition Initialize :: "TrackSynchronizer \<Rightarrow> Packet \<Rightarrow> int \<Rightarrow> int \<Rightarrow> TrackSynchronizer" where
  "Initialize t pkt now sessionStart =
     t\<lparr> startedAt := now, firstTS := uint (Timestamp pkt), ptsOffset := now - sessionStart \<rparr>"

definition getFrameDurationRTP :: "TrackSynchronizer \<Rightarrow> int" where
  "getFrameDurationRTP t =
     (if frameDuration t \<noteq> 0 then frameDuration t else defaultFrameDuration t)"

definition getElapsed :: "TrackSynchronizer \<Rightarrow> int \<Rightarrow> int" where
  "getElapsed t ts = math_Round (of_int (ts - firstTS t) * rtpDuration t)"

text \<open>The loop \<^verbatim>\<open>for ts < t.lastTS { ts += uint32Overflow }\<close> of \<^verbatim>\<open>adjust\<close>.\<close>

function unwrapTS :: "int \<Rightarrow> int \<Rightarrow> int" where
  "unwrapTS ts lastT = (if ts < lastT then unwrapTS (ts + uint32Overflow) lastT else ts)"
  by pat_completeness auto
termination
  by (relation "measure (\<lambda>(ts, lastT). nat (lastT - ts))") (auto simp: uint32Overflow_def)

declare unwrapTS.simps [simp del]

text \<open>
  \<^verbatim>\<open>adjust\<close> returns the track and the packet as it leaves them, and its three results
  \<open>(ts, pts, valid)\<close>.
\<close>

definition adjust ::
  "TrackSynchronizer \<Rightarrow> Packet \<Rightarrow> (TrackSynchronizer \<times> Packet) \<times> (int \<times> Duration \<times> bool)" where
  "adjust t pkt =
     (let pkt1 = pkt\<lparr>SequenceNumber := SequenceNumber pkt + snOffset t\<rparr> in
      if lastTS t \<noteq> 0
         \<and> SequenceNumber pkt1 - lastSN t > maxSNDropout
         \<and> lastSN t - SequenceNumber pkt1 > maxSNDropout
      then
        let t1 = t\<lparr>snOffset := snOffset t + (lastSN t + 1 - SequenceNumber pkt1)\<rparr>;
            pkt2 = pkt1\<lparr>SequenceNumber := lastSN t1 + 1\<rparr>;
            frameDur = getFrameDurationRTP t1;
            tsOffset = (inserted t1 + 1) * frameDur;
            ts = lastTS t1 + tsOffset;
            t2 = t1\<lparr>firstTS := firstTS t1 + (uint (Timestamp pkt2) - ts)\<rparr>;
            pts = lastPTS t2 + math_Round (of_int tsOffset * rtpDuration t2)
        in ((t2, pkt2), (ts, pts, False))
      else
        let ts = unwrapTS (uint (Timestamp pkt1)) (lastTS t) in
        if ts = lastTS t then ((t, pkt1), (ts, lastPTS t, lastValid t))
        else ((t, pkt1), (ts, getElapsed t ts + ptsOffset t, True)))"

text \<open>
  \<^verbatim>\<open>GetPTS\<close>: \<open>Inl EOF\<close> is the return \<^verbatim>\<open>(0, io.EOF)\<close>, \<open>Inr pts\<close> the return \<^verbatim>\<open>(pts, nil)\<close>.
\<close>

definition GetPTS ::
  "TrackSynchronizer \<Rightarrow> Packet \<Rightarrow> (TrackSynchronizer \<times> Packet) \<times> (error + Duration)" where
  "GetPTS t pkt =
     (case adjust t pkt of ((t1, pkt1), (ts, pts, valid)) \<Rightarrow>
        let t2 = t1\<lparr>inserted := 0\<rparr>;
            t3 = (if valid \<and> lastValid t2 \<and> SequenceNumber pkt1 = lastSN t2 + 1
                  then t2\<lparr>frameDuration := ts - lastTS t2\<rparr> else t2)
        in if maxPTS t3 > 0 \<and> (pts > maxPTS t3 \<or> \<not> valid)
           then ((t3, pkt1), Inl EOF)
           else ((t3\<lparr>lastTS := ts, lastSN := SequenceNumber pkt1,
                      lastPTS := pts, lastValid := valid\<rparr>, pkt1), Inr pts))"

text \<open>
  \<^verbatim>\<open>insertFrameBefore\<close>: \<open>next\<close> is \<open>None\<close> for Go's \<^verbatim>\<open>nil\<close>. The result holds the track,
  the packet, the next packet, and the pair \<^verbatim>\<open>(pts, inserted?)\<close> that Go returns.
\<close>

definition insertFrameBefore ::
  "TrackSynchronizer \<Rightarrow> Packet \<Rightarrow> Packet option
     \<Rightarrow> (TrackSynchronizer \<times> Packet \<times> Packet option) \<times> (Duration \<times> bool)" where
  "insertFrameBefore t pkt next =
     (let t1 = t\<lparr>inserted := inserted t + 1, snOffset := snOffset t + 1, lastValid := False\<rparr>;
          frameDurationRTP = getFrameDurationRTP t1;
          ts = lastTS t1 + inserted t1 * frameDurationRTP;
          (t2, next2, nextTS) =
            (case next of
               None \<Rightarrow> (t1, None, None)
             | Some n \<Rightarrow>
                 (case adjust t1 n of ((t', n'), (nts, _, _)) \<Rightarrow> (t', Some n', Some nts)))
      in if (case nextTS of None \<Rightarrow> False | Some nts \<Rightarrow> ts + frameDurationRTP > nts)
         then ((t2, pkt, next2), (0, False))
         else
           let pkt1 = pkt\<lparr>SequenceNumber := lastSN t2 + word_of_int (inserted t2),
                          Timestamp := word_of_int ts\<rparr>;
               pts = lastPTS t2
                     + math_Round (of_int frameDurationRTP * rtpDuration t2 * of_int (inserted t2))
           in ((t2, pkt1, next2), (pts, True)))"

definition InsertFrame :: "TrackSynchronizer \<Rightarrow> Packet \<Rightarrow> (TrackSynchronizer \<times> Packet) \<times> Duration" where
  "InsertFrame t pkt =
     (case insertFrameBefore t pkt None of ((t', pkt', _), (pts, _)) \<Rightarrow> ((t', pkt'), pts))"

definition InsertFrameBefore ::
  "TrackSynchronizer \<Rightarrow> Packet \<Rightarrow> Packet option
     \<Rightarrow> (TrackSynchronizer \<times> Packet \<times> Packet option) \<times> (Duration \<times> bool)" where
  "InsertFrameBefore t pkt next = insertFrameBefore t pkt next"

definition GetFrameDuration :: "TrackSynchronizer \<Rightarrow> Duration" where
  "GetFrameDuration t = math_Round (of_int (getFrameDurationRTP t) * rtpDuration t)"

text \<open>
  \<^verbatim>\<open>onSenderReport\<close>: the report is used through its \<^verbatim>\<open>NTPTime\<close> field only. The conversion
  \<^verbatim>\<open>mediatransportutil.NtpTime(...).Time()\<close> belongs to another module; it is the parameter
  \<open>ntpToTime\<close> (nanoseconds), and \<^verbatim>\<open>Sub(ntpStart)\<close> is the difference of two instants.
\<close>

record SenderReport =
  NTPTime :: "64 word"
  RTPTime :: "32 word"

definition onSenderReport ::
  "(64 word \<Rightarrow> int) \<Rightarrow> TrackSynchronizer \<Rightarrow> SenderReport \<Rightarrow> Duration \<Rightarrow> int \<Rightarrow> TrackSynchronizer" where
  "onSenderReport ntpToTime t pkt pts ntpStart =
     (let expected = ntpToTime (NTPTime pkt) - ntpStart in
      if pts \<noteq> expected
      then let drift = expected - pts in t\<lparr>ptsOffset := ptsOffset t + drift\<rparr>
      else t)"

section \<open>Reachable track states\<close>

text \<open>
  The states a track can be in: created by \<^verbatim>\<open>newTrackSynchronizer\<close> for a positive clock
  rate, then driven by the operations of this file in any order. \<^verbatim>\<open>maxPTS\<close> is assigned
  by the session, outside this file, so any value can be stored in it at any time.
\<close>

inductive reachable :: "TrackSynchronizer \<Rightarrow> bool" where
  new: "0 < clockRate \<Longrightarrow> reachable (newTrackSynchronizer tid clockRate kind)"
| init: "reachable t \<Longrightarrow> reachable (Initialize t pkt now sessionStart)"
| getPTS: "reachable t \<Longrightarrow> reachable (fst (fst (GetPTS t pkt)))"
| insertFrame: "reachable t \<Longrightarrow> reachable (fst (fst (InsertFrame t pkt)))"
| insertFrameBefore: "reachable t \<Longrightarrow> reachable (fst (fst (InsertFrameBefore t pkt next)))"
| senderReport: "reachable t \<Longrightarrow> reachable (onSenderReport ntpToTime t rep pts ntpStart)"
| setMaxPTS: "reachable t \<Longrightarrow> reachable (t\<lparr>maxPTS := m\<rparr>)"

text \<open>What every reachable state satisfies about the cadence fields.\<close>

definition cadence_ok :: "TrackSynchronizer \<Rightarrow> bool" where
  "cadence_ok t \<longleftrightarrow>
     0 \<le> inserted t \<and> 0 \<le> frameDuration t \<and> 0 \<le> defaultFrameDuration t \<and> 0 < rtpDuration t"

text \<open>The guard of the reset branch of \<^verbatim>\<open>adjust\<close> (lines 122 to 124), on the raw packet.\<close>

definition isReset :: "TrackSynchronizer \<Rightarrow> Packet \<Rightarrow> bool" where
  "isReset t pkt \<longleftrightarrow>
     lastTS t \<noteq> 0
     \<and> SequenceNumber pkt + snOffset t - lastSN t > maxSNDropout
     \<and> lastSN t - (SequenceNumber pkt + snOffset t) > maxSNDropout"

text \<open>The track after the first three statements of \<^verbatim>\<open>insertFrameBefore\<close> (lines 177 to 179).\<close>

definition afterBump :: "TrackSynchronizer \<Rightarrow> TrackSynchronizer" where
  "afterBump t = t\<lparr>inserted := inserted t + 1, snOffset := snOffset t + 1, lastValid := False\<rparr>"

text \<open>
  The snapshot is consistent when the stored PTS is not ahead of what the stored
  timestamp maps to under the current \<open>firstTS\<close> and \<open>ptsOffset\<close>.
\<close>

definition snapshot_consistent :: "TrackSynchronizer \<Rightarrow> bool" where
  "snapshot_consistent t \<longleftrightarrow> lastPTS t \<le> getElapsed t (lastTS t) + ptsOffset t"

section \<open>Example runs\<close>

text \<open>
  An audio track at 48000 Hz, initialized on a first packet with sequence number 100 and
  timestamp 1000 as the first track of its session, and the same track after
  \<^verbatim>\<open>GetPTS\<close> of that packet.
\<close>

definition ex_audio :: TrackSynchronizer where
  "ex_audio = Initialize (newTrackSynchronizer ''audio'' 48000 RTPCodecTypeAudio)
                \<lparr>SequenceNumber = 100, Timestamp = 1000\<rparr> 0 0"

definition ex_first :: TrackSynchronizer where
  "ex_first = fst (fst (GetPTS ex_audio \<lparr>SequenceNumber = 100, Timestamp = 1000\<rparr>))"

text \<open>The same track after \<^verbatim>\<open>InsertFrame\<close> has injected one filler frame.\<close>

definition ex_inserted :: TrackSynchronizer where
  "ex_inserted = fst (fst (InsertFrame ex_first \<lparr>SequenceNumber = 0, Timestamp = 0\<rparr>))"


text \<open>
  The audio track after a packet that triggers the reset branch: the sender restarted,
  its sequence numbers jumped to 5000 and its timestamps to \<open>2^32 - 500\<close>.
\<close>

definition ex_reset :: TrackSynchronizer where
  "ex_reset = fst (fst (GetPTS ex_first \<lparr>SequenceNumber = 5000, Timestamp = 4294966796\<rparr>))"


section \<open>Auxiliary lemmas\<close>

lemma unwrapTS_ge: "lastT \<le> unwrapTS ts lastT"
proof (induction ts lastT rule: unwrapTS.induct)
  case (1 ts lastT)
  then show ?case by (cases "ts < lastT") (simp_all add: unwrapTS.simps [of ts lastT])
qed

lemma adjust_reset_eq:
  "isReset t pkt \<Longrightarrow>
   adjust t pkt =
     ((t\<lparr>snOffset := lastSN t + 1 - SequenceNumber pkt,
         firstTS := firstTS t + (uint (Timestamp pkt)
                      - (lastTS t + (inserted t + 1) * getFrameDurationRTP t))\<rparr>,
       pkt\<lparr>SequenceNumber := lastSN t + 1\<rparr>),
      (lastTS t + (inserted t + 1) * getFrameDurationRTP t,
       lastPTS t + math_Round (of_int ((inserted t + 1) * getFrameDurationRTP t) * rtpDuration t),
       False))"
  by (simp add: adjust_def isReset_def Let_def getFrameDurationRTP_def)

lemma adjust_no_reset_eq:
  "\<not> isReset t pkt \<Longrightarrow>
   adjust t pkt =
     ((t, pkt\<lparr>SequenceNumber := SequenceNumber pkt + snOffset t\<rparr>),
      (let ts = unwrapTS (uint (Timestamp pkt)) (lastTS t) in
       if ts = lastTS t then (ts, lastPTS t, lastValid t)
       else (ts, getElapsed t ts + ptsOffset t, True)))"
  by (auto simp add: adjust_def isReset_def Let_def)

lemma adjust_keeps:
  "lastTS (fst (fst (adjust t pkt))) = lastTS t"
  "lastSN (fst (fst (adjust t pkt))) = lastSN t"
  "lastPTS (fst (fst (adjust t pkt))) = lastPTS t"
  "lastValid (fst (fst (adjust t pkt))) = lastValid t"
  "inserted (fst (fst (adjust t pkt))) = inserted t"
  "maxPTS (fst (fst (adjust t pkt))) = maxPTS t"
  "frameDuration (fst (fst (adjust t pkt))) = frameDuration t"
  "defaultFrameDuration (fst (fst (adjust t pkt))) = defaultFrameDuration t"
  "rtpDuration (fst (fst (adjust t pkt))) = rtpDuration t"
  "ptsOffset (fst (fst (adjust t pkt))) = ptsOffset t"
  "Timestamp (snd (fst (adjust t pkt))) = Timestamp pkt"
  by (cases "isReset t pkt"; simp add: adjust_reset_eq adjust_no_reset_eq)+

lemma adjust_valid_no_reset: "snd (snd (snd (adjust t pkt))) \<Longrightarrow> \<not> isReset t pkt"
  by (auto simp: adjust_reset_eq)

lemma insertFrameBefore_None:
  "insertFrameBefore t pkt None =
     ((afterBump t,
       pkt\<lparr>SequenceNumber := lastSN t + word_of_int (inserted t + 1),
           Timestamp := word_of_int (lastTS t + (inserted t + 1) * getFrameDurationRTP t)\<rparr>,
       None),
      (lastPTS t + math_Round (of_int (getFrameDurationRTP t) * rtpDuration t
                                * of_int (inserted t + 1)), True))"
  by (simp add: insertFrameBefore_def Let_def getFrameDurationRTP_def afterBump_def)

lemma insertFrameBefore_Some:
  "insertFrameBefore t pkt (Some n) =
     (if lastTS t + (inserted t + 1) * getFrameDurationRTP t + getFrameDurationRTP t
           > fst (snd (adjust (afterBump t) n))
      then ((fst (fst (adjust (afterBump t) n)), pkt, Some (snd (fst (adjust (afterBump t) n)))),
            (0, False))
      else ((fst (fst (adjust (afterBump t) n)),
             pkt\<lparr>SequenceNumber := lastSN t + word_of_int (inserted t + 1),
                 Timestamp := word_of_int (lastTS t + (inserted t + 1) * getFrameDurationRTP t)\<rparr>,
             Some (snd (fst (adjust (afterBump t) n)))),
            (lastPTS t + math_Round (of_int (getFrameDurationRTP t) * rtpDuration t
                                      * of_int (inserted t + 1)), True)))"
proof -
  obtain t' n' nts npts nv where a: "adjust (afterBump t) n = ((t', n'), (nts, npts, nv))"
    by (metis prod.exhaust)
  have k: "lastSN t' = lastSN t" "inserted t' = inserted t + 1" "lastPTS t' = lastPTS t"
    "rtpDuration t' = rtpDuration t"
    using adjust_keeps [of "afterBump t" n] a by (simp_all add: afterBump_def)
  show ?thesis
    using a k by (simp add: insertFrameBefore_def Let_def getFrameDurationRTP_def afterBump_def)
qed

subsection \<open>The cadence fields of reachable states\<close>

lemma getFrameDurationRTP_nonneg: "cadence_ok t \<Longrightarrow> 0 \<le> getFrameDurationRTP t"
  by (simp add: cadence_ok_def getFrameDurationRTP_def)

lemma adjust_cadence_ok: "cadence_ok t \<Longrightarrow> cadence_ok (fst (fst (adjust t pkt)))"
  by (simp add: cadence_ok_def adjust_keeps)

lemma GetPTS_cadence_ok:
  assumes "cadence_ok t" shows "cadence_ok (fst (fst (GetPTS t pkt)))"
proof -
  obtain t1 pkt1 ts pts valid where a: "adjust t pkt = ((t1, pkt1), (ts, pts, valid))"
    by (metis prod.exhaust)
  have k: "cadence_ok t1" "lastTS t1 = lastTS t"
    using adjust_cadence_ok [OF assms, of pkt] adjust_keeps(1) [of t pkt] a by simp_all
  have "valid \<Longrightarrow> lastTS t \<le> ts"
  proof -
    assume valid
    then have "\<not> isReset t pkt" using adjust_valid_no_reset [of t pkt] a by simp
    then show ?thesis using a by (auto simp: adjust_no_reset_eq Let_def unwrapTS_ge split: if_splits)
  qed
  with k show ?thesis
    by (auto simp: GetPTS_def a Let_def cadence_ok_def)
qed

lemma insertFrameBefore_cadence_ok:
  assumes "cadence_ok t" shows "cadence_ok (fst (fst (insertFrameBefore t pkt next)))"
proof (cases "next")
  case None
  with assms show ?thesis by (simp add: insertFrameBefore_None cadence_ok_def afterBump_def)
next
  case (Some n)
  from assms have "cadence_ok (afterBump t)" by (simp add: cadence_ok_def afterBump_def)
  then have "cadence_ok (fst (fst (adjust (afterBump t) n)))" by (rule adjust_cadence_ok)
  then show ?thesis
    by (simp add: insertFrameBefore_Some Some)
qed

lemma reachable_cadence_ok: "reachable t \<Longrightarrow> cadence_ok t"
proof (induction rule: reachable.induct)
  case (new clockRate tid kind)
  then have "0 < unat clockRate" by (simp add: unat_gt_0)
  then have "0 < (of_nat (unat clockRate) :: real)" by (simp only: of_nat_0_less_iff)
  moreover have "0 \<le> uint clockRate div 50" "0 \<le> uint clockRate div 24"
    by (simp_all add: pos_imp_zdiv_nonneg_iff)
  ultimately show ?case
    by (cases kind) (simp_all add: cadence_ok_def newTrackSynchronizer_def)
next
  case (init t pkt now sessionStart)
  then show ?case by (simp add: cadence_ok_def Initialize_def)
next
  case (getPTS t pkt)
  then show ?case by (simp add: GetPTS_cadence_ok)
next
  case (insertFrame t pkt)
  then show ?case
    by (simp add: InsertFrame_def insertFrameBefore_None cadence_ok_def afterBump_def)
next
  case (insertFrameBefore t pkt "next")
  then show ?case by (simp add: InsertFrameBefore_def insertFrameBefore_cadence_ok)
next
  case (senderReport t ntpToTime rep pts ntpStart)
  then show ?case by (simp add: onSenderReport_def cadence_ok_def Let_def)
next
  case (setMaxPTS t m)
  then show ?case by (simp add: cadence_ok_def)
qed

subsection \<open>The example runs, evaluated\<close>

lemmas eval_defs = GetPTS_def adjust_def Initialize_def newTrackSynchronizer_def Let_def
  maxSNDropout_def getFrameDurationRTP_def getElapsed_def math_Round_def
  unwrapTS.simps uint32Overflow_def insertFrameBefore_def InsertFrame_def InsertFrameBefore_def
  GetFrameDuration_def onSenderReport_def

lemma ex_first_eq:
  "ex_first = \<lparr>trackID = ''audio'', rtpDuration = 62500 / 3, frameDuration = 0,
      defaultFrameDuration = 960, startedAt = 0, firstTS = 1000, maxPTS = 0,
      lastSN = 100, lastTS = 1000, lastPTS = 0, lastValid = True,
      inserted = 0, snOffset = 0, ptsOffset = 0, lastPTSDrift = 0\<rparr>"
  by (simp add: ex_first_def ex_audio_def eval_defs)

lemma ex_inserted_eq:
  "ex_inserted = \<lparr>trackID = ''audio'', rtpDuration = 62500 / 3, frameDuration = 0,
      defaultFrameDuration = 960, startedAt = 0, firstTS = 1000, maxPTS = 0,
      lastSN = 100, lastTS = 1000, lastPTS = 0, lastValid = False,
      inserted = 1, snOffset = 1, ptsOffset = 0, lastPTSDrift = 0\<rparr>"
  by (simp add: ex_inserted_def ex_first_eq eval_defs)


lemma ex_reset_eq:
  "ex_reset = \<lparr>trackID = ''audio'', rtpDuration = 62500 / 3, frameDuration = 0,
      defaultFrameDuration = 960, startedAt = 0, firstTS = 4294965836, maxPTS = 0,
      lastSN = 101, lastTS = 1960, lastPTS = 20000000, lastValid = False,
      inserted = 0, snOffset = 60637, ptsOffset = 0, lastPTSDrift = 0\<rparr>"
  by (simp add: ex_reset_def ex_first_eq eval_defs)


lemma ex_audio_reachable: "reachable ex_audio"
  unfolding ex_audio_def by (intro reachable.intros) simp

lemma ex_first_reachable: "reachable ex_first"
  unfolding ex_first_def by (intro reachable.intros ex_audio_reachable)

subsection \<open>Packets and refusals\<close>

lemma GetPTS_packet: "snd (fst (GetPTS t pkt)) = snd (fst (adjust t pkt))"
  by (cases "adjust t pkt") (auto simp: GetPTS_def Let_def)

text \<open>
  A next packet that takes the reset branch is projected to exactly the end of the
  synthetic frame, so the overlap check lets the insertion through.
\<close>

lemma reset_next_is_inserted:
  "isReset (afterBump t) n \<Longrightarrow> snd (snd (insertFrameBefore t pkt (Some n)))"
  by (simp add: insertFrameBefore_Some adjust_reset_eq afterBump_def getFrameDurationRTP_def
      algebra_simps)

subsection \<open>Rounding\<close>



lemma math_Round_mono: "x \<le> y \<Longrightarrow> math_Round x \<le> math_Round y"
proof -
  assume h: "x \<le> y"
  consider "0 \<le> x" | "x < 0" "0 \<le> y" | "y < 0" using h by linarith
  then show ?thesis
  proof cases
    case 1
    with h show ?thesis by (simp add: math_Round_def floor_mono)
  next
    case 2
    have "\<lceil>x - 1 / 2\<rceil> \<le> 0" using 2(1) by (simp add: ceiling_le_iff)
    moreover have "0 \<le> \<lfloor>y + 1 / 2\<rfloor>" using 2(2) by simp
    ultimately have "\<lceil>x - 1 / 2\<rceil> \<le> \<lfloor>y + 1 / 2\<rfloor>" by linarith
    then show ?thesis using 2 by (simp add: math_Round_def)
  next
    case 3
    with h have "x < 0" by simp
    with 3 h show ?thesis by (simp add: math_Round_def ceiling_mono)
  qed
qed

subsection \<open>Presentation times without a reset\<close>

text \<open>
  As long as the snapshot is consistent and the reset branch is not taken, an accepted
  packet's PTS is not below the previous one, and the snapshot stays consistent.
\<close>

lemma GetPTS_monotone_without_reset:
  assumes "snapshot_consistent t" and "0 \<le> rtpDuration t" and "\<not> isReset t pkt"
    and "GetPTS t pkt = ((t', pkt'), Inr pts)"
  shows "lastPTS t \<le> pts" and "snapshot_consistent t'"
proof -
  define ts where "ts = unwrapTS (uint (Timestamp pkt)) (lastTS t)"
  have ge: "lastTS t \<le> ts" by (simp add: ts_def unwrapTS_ge)
  then have "of_int (lastTS t - firstTS t) * rtpDuration t \<le> of_int (ts - firstTS t) * rtpDuration t"
    using assms(2) by (intro mult_right_mono) simp_all
  then have el: "getElapsed t (lastTS t) \<le> getElapsed t ts"
    by (simp add: getElapsed_def math_Round_mono)
  show "lastPTS t \<le> pts"
    using assms(1,3,4) el
    by (auto simp: GetPTS_def adjust_no_reset_eq Let_def ts_def [symmetric] snapshot_consistent_def
        split: if_splits)
  show "snapshot_consistent t'"
    using assms(1,3,4) el
    by (auto simp: GetPTS_def adjust_no_reset_eq Let_def ts_def [symmetric] snapshot_consistent_def
        getElapsed_def split: if_splits)
qed

section \<open>The claims\<close>

subsection \<open>C1\<close>

text \<open>
  C1. The claim is that successive \<^verbatim>\<open>GetPTS\<close> calls in packet order never return a
  smaller PTS than the call before. The code does not keep it. The reset branch moves
  \<open>firstTS\<close> into the new sender's timestamp domain but the projected \<open>ts\<close>, which is
  still in the old domain, is stored as \<open>lastTS\<close>. The unwrap loop of the next call
  compares a raw timestamp of the new domain with it. The run below: the first packet
  (100, 1000) gets PTS 0; the sender restarts at sequence number 5000 and timestamp
  \<open>2^32 - 500\<close>, and that packet is repaired to PTS 20 ms; the next packet, 3000 ticks
  later, has the wrapped timestamp 2500, which is not below \<open>lastTS = 1960\<close>, so it is
  not unwrapped, and its PTS is about 24.8 hours in the past.
\<close>

theorem GetPTS_pts_runs_backwards_after_reset:
  "snd (GetPTS ex_audio \<lparr>SequenceNumber = 100, Timestamp = 1000\<rparr>) = Inr 0
   \<and> snd (GetPTS ex_first \<lparr>SequenceNumber = 5000, Timestamp = 4294966796\<rparr>) = Inr 20000000
   \<and> snd (GetPTS ex_reset \<lparr>SequenceNumber = 5001, Timestamp = 2500\<rparr>) = Inr (- 89478402833333)"
  by (simp add: ex_audio_def ex_first_eq ex_reset_eq eval_defs)

subsection \<open>C2\<close>

text \<open>
  C2. In every reachable state of a track, the timestamp \<open>ts\<close> that \<^verbatim>\<open>adjust\<close> produces
  is at least the stored \<open>lastTS\<close>, whichever branch is taken (the reset branch projects
  forward by a non-negative amount; the other two return the unwrapped timestamp). This
  holds for the call from \<^verbatim>\<open>GetPTS\<close> and for the call from \<^verbatim>\<open>insertFrameBefore\<close> on the next
  packet, and so \<open>lastTS\<close> never decreases across \<^verbatim>\<open>GetPTS\<close>.
\<close>

theorem adjust_ts_not_before_lastTS:
  assumes "reachable t"
  shows "lastTS t \<le> fst (snd (adjust t pkt))
       \<and> lastTS t \<le> fst (snd (adjust (afterBump t) pkt))
       \<and> lastTS t \<le> lastTS (fst (fst (GetPTS t pkt)))
       \<and> (isReset t pkt \<longrightarrow>
            fst (snd (adjust t pkt)) = lastTS t + (inserted t + 1) * getFrameDurationRTP t)
       \<and> (\<not> isReset t pkt \<longrightarrow>
            fst (snd (adjust t pkt)) = unwrapTS (uint (Timestamp pkt)) (lastTS t))"
proof -
  from assms have c: "cadence_ok t" by (rule reachable_cadence_ok)
  then have nn: "0 \<le> (inserted t + 1) * getFrameDurationRTP t"
    by (simp add: cadence_ok_def getFrameDurationRTP_nonneg)
  have ts: "lastTS t \<le> fst (snd (adjust t pkt))"
    using nn by (cases "isReset t pkt") (simp_all add: adjust_reset_eq adjust_no_reset_eq Let_def unwrapTS_ge)
  have "reachable (afterBump t)"
    using reachable.insertFrame [OF assms, of pkt]
    by (simp add: InsertFrame_def insertFrameBefore_None)
  then have "cadence_ok (afterBump t)" by (rule reachable_cadence_ok)
  then have "0 \<le> (inserted (afterBump t) + 1) * getFrameDurationRTP (afterBump t)"
    by (simp add: cadence_ok_def getFrameDurationRTP_nonneg)
  then have "lastTS (afterBump t) \<le> fst (snd (adjust (afterBump t) pkt))"
    by (cases "isReset (afterBump t) pkt")
      (simp_all add: adjust_reset_eq adjust_no_reset_eq Let_def unwrapTS_ge)
  then have bump: "lastTS t \<le> fst (snd (adjust (afterBump t) pkt))"
    by (simp add: afterBump_def)
  obtain t1 pkt1 ts pts valid where a: "adjust t pkt = ((t1, pkt1), (ts, pts, valid))"
    by (metis prod.exhaust)
  have k: "lastTS t1 = lastTS t" using adjust_keeps(1) [of t pkt] a by simp
  have "lastTS t \<le> lastTS (fst (fst (GetPTS t pkt)))"
    using ts a k by (simp add: GetPTS_def Let_def)
  moreover have "isReset t pkt \<longrightarrow>
            fst (snd (adjust t pkt)) = lastTS t + (inserted t + 1) * getFrameDurationRTP t"
    by (simp add: adjust_reset_eq)
  moreover have "\<not> isReset t pkt \<longrightarrow>
            fst (snd (adjust t pkt)) = unwrapTS (uint (Timestamp pkt)) (lastTS t)"
    by (simp add: adjust_no_reset_eq Let_def)
  ultimately show ?thesis using ts bump by blast
qed

text \<open>
  The three branches on the example track (\<open>lastTS = 1000\<close>): a reset, a timestamp that
  is unwrapped once, and a duplicate timestamp.
\<close>

theorem adjust_ts_not_before_lastTS_witness:
  "reachable ex_first
   \<and> lastTS ex_first = 1000
   \<and> fst (snd (adjust ex_first \<lparr>SequenceNumber = 5000, Timestamp = 7\<rparr>)) = 1960
   \<and> fst (snd (adjust ex_first \<lparr>SequenceNumber = 101, Timestamp = 7\<rparr>)) = 4294967303
   \<and> fst (snd (adjust ex_first \<lparr>SequenceNumber = 101, Timestamp = 1000\<rparr>)) = 1000"
proof -
  let ?a = "\<lparr>SequenceNumber = 5000, Timestamp = 7\<rparr>"
  let ?b = "\<lparr>SequenceNumber = 101, Timestamp = 7\<rparr>"
  let ?c = "\<lparr>SequenceNumber = 101, Timestamp = 1000\<rparr>"
  have g: "isReset ex_first ?a" "\<not> isReset ex_first ?b" "\<not> isReset ex_first ?c"
    by (simp_all add: ex_first_eq isReset_def maxSNDropout_def)
  have f: "lastTS ex_first = 1000" "inserted ex_first = 0" "getFrameDurationRTP ex_first = 960"
    by (simp_all add: ex_first_eq getFrameDurationRTP_def)
  have u: "unwrapTS 7 1000 = 4294967303" "unwrapTS 1000 1000 = 1000"
    by (simp_all add: unwrapTS.simps uint32Overflow_def)
  from adjust_ts_not_before_lastTS [OF ex_first_reachable, of ?a]
    adjust_ts_not_before_lastTS [OF ex_first_reachable, of ?b]
    adjust_ts_not_before_lastTS [OF ex_first_reachable, of ?c]
    g f u ex_first_reachable
  show ?thesis by simp
qed

subsection \<open>C3\<close>

text \<open>
  C3. When a previous timestamp exists (\<open>lastTS \<noteq> 0\<close>) and the offset-corrected sequence
  number is more than 3000 away from \<open>lastSN\<close> in both wrap-around directions, \<^verbatim>\<open>adjust\<close>
  leaves the packet with sequence number exactly \<open>lastSN + 1\<close>, adds the whole gap to
  \<open>snOffset\<close> (so that the raw number plus the new offset is \<open>lastSN + 1\<close>), and returns
  \<open>valid = false\<close>.
\<close>

theorem adjust_reset_renumbers:
  assumes "lastTS t \<noteq> 0"
    and "SequenceNumber pkt + snOffset t - lastSN t > 3000"
    and "lastSN t - (SequenceNumber pkt + snOffset t) > 3000"
  shows "SequenceNumber (snd (fst (adjust t pkt))) = lastSN t + 1
       \<and> snOffset (fst (fst (adjust t pkt)))
           = snOffset t + (lastSN t + 1 - (SequenceNumber pkt + snOffset t))
       \<and> SequenceNumber pkt + snOffset (fst (fst (adjust t pkt))) = lastSN t + 1
       \<and> snd (snd (snd (adjust t pkt))) = False"
proof -
  from assms have "isReset t pkt" by (simp add: isReset_def maxSNDropout_def)
  then show ?thesis by (simp add: adjust_reset_eq)
qed

text \<open>
  The instance of the specification: \<open>lastSN = 100\<close>, \<open>snOffset = 0\<close>, raw sequence number
  5000 gives the corrected sequence number 101 and \<open>valid = false\<close>.
\<close>

theorem adjust_reset_renumbers_witness:
  "lastSN ex_first = 100 \<and> snOffset ex_first = 0 \<and> lastTS ex_first \<noteq> 0
   \<and> SequenceNumber (snd (fst (adjust ex_first \<lparr>SequenceNumber = 5000, Timestamp = 7000\<rparr>))) = 101
   \<and> snd (snd (snd (adjust ex_first \<lparr>SequenceNumber = 5000, Timestamp = 7000\<rparr>))) = False"
  using adjust_reset_renumbers [of ex_first "\<lparr>SequenceNumber = 5000, Timestamp = 7000\<rparr>"]
  by (simp add: ex_first_eq)

subsection \<open>C4\<close>

text \<open>
  C4. \<^verbatim>\<open>GetPTS\<close> returns the end-of-stream signal exactly when \<open>maxPTS > 0\<close> and the
  \<open>pts\<close> computed by \<^verbatim>\<open>adjust\<close> exceeds \<open>maxPTS\<close> or the packet is not valid. On that return
  \<open>lastSN\<close>, \<open>lastTS\<close>, \<open>lastPTS\<close> and \<open>lastValid\<close> are as before the call; on every other
  return the result is \<open>pts\<close> without error and the four fields hold the values of this
  packet.
\<close>

theorem GetPTS_end_of_stream:
  "case adjust t pkt of ((t1, pkt1), (ts, pts, valid)) \<Rightarrow>
     (case GetPTS t pkt of ((t', pkt'), r) \<Rightarrow>
        (r = Inl EOF \<longleftrightarrow> 0 < maxPTS t \<and> (maxPTS t < pts \<or> \<not> valid))
      \<and> (r = Inl EOF \<longrightarrow>
           lastSN t' = lastSN t \<and> lastTS t' = lastTS t
           \<and> lastPTS t' = lastPTS t \<and> lastValid t' = lastValid t)
      \<and> (r \<noteq> Inl EOF \<longrightarrow>
           r = Inr pts \<and> lastSN t' = SequenceNumber pkt1 \<and> lastTS t' = ts
           \<and> lastPTS t' = pts \<and> lastValid t' = valid))"
proof -
  obtain t1 pkt1 ts pts valid where a: "adjust t pkt = ((t1, pkt1), (ts, pts, valid))"
    by (metis prod.exhaust)
  have k: "lastTS t1 = lastTS t" "lastSN t1 = lastSN t" "lastPTS t1 = lastPTS t"
    "lastValid t1 = lastValid t" "maxPTS t1 = maxPTS t"
    using adjust_keeps [of t pkt] a by simp_all
  show ?thesis
    by (simp add: a GetPTS_def Let_def k)
qed

text \<open>
  With \<open>maxPTS\<close> at 10 ms the packet at 20 ms ends the stream and \<open>lastTS\<close> stays 1000;
  with \<open>maxPTS\<close> at 30 ms the same packet is accepted and \<open>lastTS\<close> becomes 1960.
\<close>

theorem GetPTS_end_of_stream_witness:
  "snd (GetPTS (ex_first\<lparr>maxPTS := 10000000\<rparr>) \<lparr>SequenceNumber = 101, Timestamp = 1960\<rparr>) = Inl EOF
   \<and> lastTS (fst (fst (GetPTS (ex_first\<lparr>maxPTS := 10000000\<rparr>)
         \<lparr>SequenceNumber = 101, Timestamp = 1960\<rparr>))) = lastTS ex_first
   \<and> snd (GetPTS (ex_first\<lparr>maxPTS := 30000000\<rparr>) \<lparr>SequenceNumber = 101, Timestamp = 1960\<rparr>)
       = Inr 20000000
   \<and> lastTS (fst (fst (GetPTS (ex_first\<lparr>maxPTS := 30000000\<rparr>)
         \<lparr>SequenceNumber = 101, Timestamp = 1960\<rparr>))) = 1960"
proof -
  let ?p = "\<lparr>SequenceNumber = 101, Timestamp = 1960\<rparr>"
  let ?lo = "ex_first\<lparr>maxPTS := 10000000\<rparr>"
  let ?hi = "ex_first\<lparr>maxPTS := 30000000\<rparr>"
  have a: "snd (adjust ?lo ?p) = (1960, 20000000, True)"
    "snd (adjust ?hi ?p) = (1960, 20000000, True)"
    by (simp_all add: ex_first_eq eval_defs)
  have lo: "snd (GetPTS ?lo ?p) = Inl EOF \<and> lastTS (fst (fst (GetPTS ?lo ?p))) = lastTS ?lo"
    using GetPTS_end_of_stream [of ?lo ?p] a(1)
    by (cases "adjust ?lo ?p"; cases "GetPTS ?lo ?p") auto
  have hi: "snd (GetPTS ?hi ?p) = Inr 20000000 \<and> lastTS (fst (fst (GetPTS ?hi ?p))) = 1960"
    using GetPTS_end_of_stream [of ?hi ?p] a(2)
    by (cases "adjust ?hi ?p"; cases "GetPTS ?hi ?p") auto
  from lo hi show ?thesis by simp
qed

subsection \<open>C5\<close>

text \<open>
  C5, as stated, fails: \<^verbatim>\<open>GetPTS\<close> runs \<^verbatim>\<open>adjust\<close>, whose first statement adds \<open>snOffset\<close> to
  the sequence number of the caller's packet. After one inserted frame the packet that
  arrives with sequence number 101 leaves \<^verbatim>\<open>GetPTS\<close> with 102.
\<close>

theorem GetPTS_rewrites_sequence_number_counterexample:
  "snd (fst (GetPTS ex_inserted \<lparr>SequenceNumber = 101, Timestamp = 2920\<rparr>))
     = \<lparr>SequenceNumber = 102, Timestamp = 2920\<rparr>
   \<and> snd (fst (GetPTS ex_inserted \<lparr>SequenceNumber = 101, Timestamp = 2920\<rparr>))
     \<noteq> \<lparr>SequenceNumber = 101, Timestamp = 2920\<rparr>"
  by (simp add: ex_inserted_eq eval_defs)

text \<open>
  C5, amended. \<^verbatim>\<open>GetPTS\<close> never changes the packet's timestamp. It rewrites the packet's
  sequence number in place: to \<open>lastSN + 1\<close> when the reset branch is taken, otherwise to
  the number plus \<open>snOffset\<close>. The packet is returned unchanged when no reset is taken and
  \<open>snOffset = 0\<close>.
\<close>

theorem GetPTS_packet_effect:
  "Timestamp (snd (fst (GetPTS t pkt))) = Timestamp pkt
   \<and> SequenceNumber (snd (fst (GetPTS t pkt)))
       = (if isReset t pkt then lastSN t + 1 else SequenceNumber pkt + snOffset t)
   \<and> (\<not> isReset t pkt \<and> snOffset t = 0 \<longrightarrow> snd (fst (GetPTS t pkt)) = pkt)"
  by (cases "isReset t pkt") (simp_all add: GetPTS_packet adjust_reset_eq adjust_no_reset_eq)

text \<open>
  On the fresh track (\<open>snOffset = 0\<close>) the packet comes back as it went in; after one
  inserted frame (\<open>snOffset = 1\<close>) the sequence number 101 becomes 102 and the timestamp
  stays.
\<close>

theorem GetPTS_packet_effect_witness:
  "snOffset ex_first = 0
   \<and> snd (fst (GetPTS ex_first \<lparr>SequenceNumber = 101, Timestamp = 1960\<rparr>))
       = \<lparr>SequenceNumber = 101, Timestamp = 1960\<rparr>
   \<and> SequenceNumber (snd (fst (GetPTS ex_inserted \<lparr>SequenceNumber = 101, Timestamp = 2920\<rparr>)))
       = 102
   \<and> Timestamp (snd (fst (GetPTS ex_inserted \<lparr>SequenceNumber = 101, Timestamp = 2920\<rparr>)))
       = 2920"
proof -
  have a: "\<not> isReset ex_first \<lparr>SequenceNumber = 101, Timestamp = 1960\<rparr>" "snOffset ex_first = 0"
    by (simp_all add: ex_first_eq isReset_def maxSNDropout_def)
  have b: "\<not> isReset ex_inserted \<lparr>SequenceNumber = 101, Timestamp = 2920\<rparr>"
    "snOffset ex_inserted = 1"
    by (simp_all add: ex_inserted_eq isReset_def maxSNDropout_def)
  show ?thesis
    using GetPTS_packet_effect [of ex_first "\<lparr>SequenceNumber = 101, Timestamp = 1960\<rparr>"]
      GetPTS_packet_effect [of ex_inserted "\<lparr>SequenceNumber = 101, Timestamp = 2920\<rparr>"] a b
    by simp
qed

subsection \<open>C6\<close>




subsection \<open>C7\<close>




subsection \<open>C8\<close>

text \<open>
  C8. \<^verbatim>\<open>onSenderReport\<close> adds exactly \<open>expected - pts\<close> to \<open>ptsOffset\<close>, where \<open>expected\<close>
  is the report's send time minus the session's NTP start, and changes nothing else;
  when \<open>pts = expected\<close> the track is unchanged. The operation is total: it has no
  failing outcome.
\<close>

theorem onSenderReport_folds_drift:
  "onSenderReport ntpToTime t rep pts ntpStart
     = t\<lparr>ptsOffset := ptsOffset t + ((ntpToTime (NTPTime rep) - ntpStart) - pts)\<rparr>
   \<and> (pts = ntpToTime (NTPTime rep) - ntpStart
        \<longrightarrow> onSenderReport ntpToTime t rep pts ntpStart = t)"
  by (simp add: onSenderReport_def Let_def)

text \<open>
  A report 4000 ns after the session start: a track that computed 3000 ns gets
  \<open>ptsOffset\<close> raised by 1000, a track that computed 4000 ns is left alone.
\<close>

theorem onSenderReport_folds_drift_witness:
  "ptsOffset (onSenderReport uint ex_first \<lparr>NTPTime = 5000, RTPTime = 1000\<rparr> 3000 1000) = 1000
   \<and> onSenderReport uint ex_first \<lparr>NTPTime = 5000, RTPTime = 1000\<rparr> 4000 1000 = ex_first"
  using onSenderReport_folds_drift [of uint ex_first "\<lparr>NTPTime = 5000, RTPTime = 1000\<rparr>" 3000 1000]
    onSenderReport_folds_drift [of uint ex_first "\<lparr>NTPTime = 5000, RTPTime = 1000\<rparr>" 4000 1000]
  by (simp add: ex_first_eq)

subsection \<open>C9\<close>

text \<open>
  C9. When \<^verbatim>\<open>InsertFrameBefore\<close> refuses (returns \<^verbatim>\<open>(0, false)\<close>), the statements before the
  overlap check stay in force: \<open>inserted\<close> and \<open>snOffset\<close> are one more than before the
  call and \<open>lastValid\<close> is false; the caller's packet is not overwritten.
\<close>

theorem InsertFrameBefore_refusal_keeps_side_effects:
  assumes "snd (snd (InsertFrameBefore t pkt next)) = False"
  shows "inserted (fst (fst (InsertFrameBefore t pkt next))) = inserted t + 1
       \<and> snOffset (fst (fst (InsertFrameBefore t pkt next))) = snOffset t + 1
       \<and> lastValid (fst (fst (InsertFrameBefore t pkt next))) = False
       \<and> fst (snd (fst (InsertFrameBefore t pkt next))) = pkt
       \<and> fst (snd (InsertFrameBefore t pkt next)) = 0"
proof (cases "next")
  case None
  with assms show ?thesis by (simp add: InsertFrameBefore_def insertFrameBefore_None)
next
  case (Some n)
  with assms have "\<not> isReset (afterBump t) n"
    using reset_next_is_inserted [of t n pkt] by (auto simp: InsertFrameBefore_def)
  with assms Some show ?thesis
    by (simp add: InsertFrameBefore_def insertFrameBefore_Some adjust_no_reset_eq afterBump_def
        split: if_splits)
qed

text \<open>
  A next packet one frame after the last one leaves no room for a filler frame: the
  insertion is refused, and the counters have moved.
\<close>

theorem InsertFrameBefore_refusal_keeps_side_effects_witness:
  "snd (snd (InsertFrameBefore ex_first \<lparr>SequenceNumber = 7, Timestamp = 7\<rparr>
         (Some \<lparr>SequenceNumber = 101, Timestamp = 1960\<rparr>))) = False
   \<and> inserted (fst (fst (InsertFrameBefore ex_first \<lparr>SequenceNumber = 7, Timestamp = 7\<rparr>
         (Some \<lparr>SequenceNumber = 101, Timestamp = 1960\<rparr>)))) = 1
   \<and> snOffset (fst (fst (InsertFrameBefore ex_first \<lparr>SequenceNumber = 7, Timestamp = 7\<rparr>
         (Some \<lparr>SequenceNumber = 101, Timestamp = 1960\<rparr>)))) = 1
   \<and> lastValid (fst (fst (InsertFrameBefore ex_first \<lparr>SequenceNumber = 7, Timestamp = 7\<rparr>
         (Some \<lparr>SequenceNumber = 101, Timestamp = 1960\<rparr>)))) = False
   \<and> fst (snd (fst (InsertFrameBefore ex_first \<lparr>SequenceNumber = 7, Timestamp = 7\<rparr>
         (Some \<lparr>SequenceNumber = 101, Timestamp = 1960\<rparr>))))
       = \<lparr>SequenceNumber = 7, Timestamp = 7\<rparr>"
proof -
  let ?r = "InsertFrameBefore ex_first \<lparr>SequenceNumber = 7, Timestamp = 7\<rparr>
              (Some \<lparr>SequenceNumber = 101, Timestamp = 1960\<rparr>)"
  have refused: "snd (snd ?r) = False"
    by (simp add: ex_first_eq eval_defs)
  have f: "inserted ex_first = 0" "snOffset ex_first = 0"
    by (simp_all add: ex_first_eq)
  from InsertFrameBefore_refusal_keeps_side_effects [OF refused] refused f
  show ?thesis by simp
qed

subsection \<open>C10\<close>



end
